theory Spec2Isabelle
  imports Complex_Main
begin

section \<open>The quiz backend of \<open>src/app.js\<close>\<close>

text \<open>
  The service is one Express application over three JSON files (users, questions,
  game-runs). Each handler of \<open>app.js\<close> is a function from the application state and
  the request's parts to a response and, where the handler writes, the state afterwards.
  The values a handler takes from outside (the UUID of \<open>uuidv4()\<close>, the clock of
  \<open>new Date().getTime()\<close>, the verdict of \<open>bcrypt.compare\<close>) are arguments.
\<close>

subsection \<open>JSON values and JavaScript objects\<close>

text \<open>
  A parsed JSON value. A number is the value that the parser produced, as a rational; an
  object is the list of its properties in enumeration order, each key once.
\<close>

datatype json =
    JNull
  | JBool bool
  | JNum rat
  | JStr string
  | JArr "json list"
  | JObj "(string \<times> json) list"

type_synonym object = "(string \<times> json) list"

text \<open>Setting a property: an existing key keeps its place, a new key goes last.\<close>

fun obj_set :: "string \<Rightarrow> json \<Rightarrow> object \<Rightarrow> object" where
  "obj_set k v [] = [(k, v)]"
| "obj_set k v ((k', v') # es) =
     (if k' = k then (k, v) # es else (k', v') # obj_set k v es)"

text \<open>\<open>Object.entries\<close> lists the properties; \<open>Object.fromEntries\<close> sets them one by one.\<close>

definition entries :: "object \<Rightarrow> (string \<times> json) list" where
  "entries obj = obj"

definition fromEntries :: "(string \<times> json) list \<Rightarrow> object" where
  "fromEntries es = foldl (\<lambda>obj (k, v). obj_set k v obj) [] es"

text \<open>\<open>delete obj.k\<close>\<close>

definition delete_property :: "string \<Rightarrow> object \<Rightarrow> object" where
  "delete_property k obj = filter (\<lambda>(k', v). k' \<noteq> k) obj"

text \<open>\<open>n === v\<close> for a number \<open>n\<close>: true only for a number of the same value.\<close>

fun strict_equals :: "int \<Rightarrow> json \<Rightarrow> bool" where
  "strict_equals n (JNum r) = (r = of_int n)"
| "strict_equals n v = False"

subsection \<open>The stored documents\<close>

record user =
  userName :: string
  password :: string

record question =
  q_id :: string
  q_question :: string
  q_options :: "string list"
  q_correctAnswer :: int

record game_run =
  run_id :: string
  run_userName :: string
  run_createdAt :: int
  run_responses :: object

text \<open>
  The three files, and the module-level constant \<open>questions\<close> (line 138), which is read
  once when the module loads and is what validation and scoring use afterwards.
\<close>

record state =
  users_file :: "user list"
  questions_file :: "question list"
  game_runs_file :: "game_run list"
  questions :: "question list"

text \<open>
  Modelled from the spec: \<open>read\<close> and \<open>write\<close> of \<open>tools/json-files.js\<close>, which is not
  among the sources. The spec's document store reads a named collection in full, as fresh
  values, and writes a collection in full.
\<close>

definition read_users :: "state \<Rightarrow> user list" where
  "read_users st = users_file st"

definition read_questions :: "state \<Rightarrow> question list" where
  "read_questions st = questions_file st"

definition read_game_runs :: "state \<Rightarrow> game_run list" where
  "read_game_runs st = game_runs_file st"

definition write_game_runs :: "game_run list \<Rightarrow> state \<Rightarrow> state" where
  "write_game_runs gs st = st\<lparr>game_runs_file := gs\<rparr>"

text \<open>A question as the object parsed from the file.\<close>

definition question_object :: "question \<Rightarrow> object" where
  "question_object q =
     [(''id'', JStr (q_id q)),
      (''question'', JStr (q_question q)),
      (''options'', JArr (map JStr (q_options q))),
      (''correctAnswer'', JNum (of_int (q_correctAnswer q)))]"

subsection \<open>Responses\<close>

text \<open>
  A signed token, symbolically: the payload's \<open>userName\<close>, the subject claim and the
  secret it was signed with. The verifier accepts exactly the tokens signed with its own
  secret.
\<close>

record token =
  tok_userName :: string
  tok_sub :: string
  tok_secret :: string

datatype validation_error =
    ObjectBase
  | ObjectUnknown string
  | ObjectMin
  | NumberBase string
  | NumberUnsafe string
  | NumberInteger string
  | NumberMin string
  | NumberMax string

datatype body =
    TokenBody token
  | JsonBody json
  | ErrorBody validation_error

text \<open>
  \<open>res.sendStatus(n)\<close> answers with the status alone (Express writes the status text);
  \<open>res.send(x)\<close> and \<open>res.status(n).send(x)\<close> answer with a payload.
\<close>

datatype response =
    SendStatus nat
  | Send nat body

datatype js_error = TypeError

subsection \<open>Authentication\<close>

definition JWT_SECRET :: string where
  "JWT_SECRET = ''super-secret''"

text \<open>
  The callback of \<open>BasicStrategy\<close> (lines 18-37): \<open>None\<close> is \<open>done(null, false)\<close>.
  The argument \<open>compare\<close> is \<open>bcrypt.compare\<close>; \<open>name\<close> and \<open>pw\<close> are the \<open>userName\<close> and
  \<open>password\<close> that passport-http hands to the callback.
\<close>

definition basic_strategy ::
  "(string \<Rightarrow> string \<Rightarrow> bool) \<Rightarrow> state \<Rightarrow> string \<Rightarrow> string \<Rightarrow> user option" where
  "basic_strategy compare st name pw =
     (case find (\<lambda>u. userName u = name) (read_users st) of
        None \<Rightarrow> None
      | Some u \<Rightarrow> if \<not> compare pw (password u) then None else Some u)"

text \<open>\<open>jwt.sign({ userName }, secret, { subject })\<close>\<close>

definition jwt_sign :: "string \<Rightarrow> string \<Rightarrow> string \<Rightarrow> token" where
  "jwt_sign name secret subject =
     \<lparr>tok_userName = name, tok_sub = subject, tok_secret = secret\<rparr>"

text \<open>\<open>s.split(c)\<close>: the pieces of \<open>s\<close> between the occurrences of \<open>c\<close>.\<close>

fun split_on :: "char \<Rightarrow> string \<Rightarrow> string list" where
  "split_on c [] = [[]]"
| "split_on c (x # xs) =
     (if x = c then [] # split_on c xs
      else (case split_on c xs of
              [] \<Rightarrow> [[x]]
            | p # ps \<Rightarrow> (x # p) # ps))"

text \<open>
  \<open>POST /authenticate\<close> (lines 78-88). The request carries the pair \<open>name\<close>, \<open>pw\<close> in
  its Basic authorization header, whose decoded text is \<open>name:pw\<close>.
  \<open>passport.authenticate("basic")\<close> of line 80 runs passport-http's strategy on it: the
  text is split at every colon, fewer than two pieces are answered 400, the first two
  pieces are \<open>userid\<close> and \<open>password\<close>, and an empty one of them is answered 401 before
  the callback is called. When the callback fails passport answers 401, otherwise the
  handler signs a token for \<open>req.user\<close>.
\<close>

definition post_authenticate ::
  "(string \<Rightarrow> string \<Rightarrow> bool) \<Rightarrow> state \<Rightarrow> string \<Rightarrow> string \<Rightarrow> response" where
  "post_authenticate compare st name pw =
     (let credentials = split_on CHR '':'' (name @ '':'' @ pw) in
      if length credentials < 2 then SendStatus 400
      else
        (let userid = credentials ! 0; passwd = credentials ! 1 in
         if userid = [] \<or> passwd = [] then SendStatus 401
         else
           (case basic_strategy compare st userid passwd of
              None \<Rightarrow> SendStatus 401
            | Some u \<Rightarrow>
                Send 200 (TokenBody (jwt_sign (userName u) JWT_SECRET (userName u))))))"

text \<open>
  The JWT strategy (lines 41-53): a bearer token signed with \<open>JWT_SECRET\<close> gives the
  principal \<open>{ userName: jwtPayload.userName }\<close>; anything else leaves the request
  unauthenticated.
\<close>

record principal =
  p_userName :: string

definition jwt_strategy :: "token option \<Rightarrow> principal option" where
  "jwt_strategy bearer =
     (case bearer of
        None \<Rightarrow> None
      | Some t \<Rightarrow>
          if tok_secret t = JWT_SECRET then Some \<lparr>p_userName = tok_userName t\<rparr> else None)"

text \<open>
  \<open>gameOwnerMiddleware\<close> (lines 56-75): \<open>Some r\<close> ends the request with \<open>r\<close>, \<open>None\<close>
  is \<open>next()\<close>.
\<close>

definition gameOwnerMiddleware :: "state \<Rightarrow> principal option \<Rightarrow> string \<Rightarrow> response option" where
  "gameOwnerMiddleware st req_user runId =
     (case req_user of
        None \<Rightarrow> Some (SendStatus 401)
      | Some u \<Rightarrow>
          (case find (\<lambda>gameRun. run_id gameRun = runId) (read_game_runs st) of
             None \<Rightarrow> Some (SendStatus 404)
           | Some gameRun \<Rightarrow>
               if run_userName gameRun = p_userName u then None
               else Some (SendStatus 403)))"

subsection \<open>The question catalog\<close>

text \<open>\<open>GET /questions\<close> (lines 91-97)\<close>

definition get_questions :: "state \<Rightarrow> response" where
  "get_questions st =
     Send 200 (JsonBody (JArr (map
       (\<lambda>q. JObj [(''id'', JStr (q_id q)),
                   (''question'', JStr (q_question q)),
                   (''options'', JArr (map JStr (q_options q)))])
       (read_questions st))))"

text \<open>\<open>GET /questions/:questionId\<close> (lines 100-114)\<close>

definition get_question :: "state \<Rightarrow> string \<Rightarrow> response" where
  "get_question st questionId =
     (case find (\<lambda>q. q_id q = questionId) (read_questions st) of
        None \<Rightarrow> SendStatus 404
      | Some q \<Rightarrow>
          Send 200 (JsonBody (JObj (delete_property ''correctAnswer'' (question_object q)))))"

subsection \<open>Game runs\<close>

text \<open>
  \<open>POST /game-runs\<close> (lines 117-135). \<open>runId\<close> is the value of \<open>uuidv4()\<close> and \<open>now\<close>
  the value of \<open>new Date().getTime()\<close>.
\<close>

definition post_game_runs :: "state \<Rightarrow> token option \<Rightarrow> string \<Rightarrow> int \<Rightarrow> response \<times> state" where
  "post_game_runs st bearer runId now =
     (case jwt_strategy bearer of
        None \<Rightarrow> (SendStatus 401, st)
      | Some u \<Rightarrow>
          (Send 200 (JsonBody (JObj [(''runId'', JStr runId)])),
           write_game_runs
             (read_game_runs st @
              [\<lparr>run_id = runId, run_userName = p_userName u, run_createdAt = now,
                run_responses = []\<rparr>])
             st))"

text \<open>
  \<open>putGameRunResponsesSchema\<close> (lines 140-145). The value rule
  \<open>Joi.number().integer().min(0).max(3).required().strict()\<close>: no conversion; a number
  outside the safe integers is refused by the type itself, then come the rules in the
  order they are chained.
\<close>

definition is_integer :: "rat \<Rightarrow> bool" where
  "is_integer r = (of_int \<lfloor>r\<rfloor> = r)"

fun joi_number :: "string \<Rightarrow> json \<Rightarrow> validation_error option" where
  "joi_number k (JNum r) =
     (if 9007199254740991 < r \<or> r < - 9007199254740991 then Some (NumberUnsafe k)
      else if \<not> is_integer r then Some (NumberInteger k)
      else if r < 0 then Some (NumberMin k)
      else if 3 < r then Some (NumberMax k)
      else None)"
| "joi_number k v = Some (NumberBase k)"

text \<open>
  The key pattern \<open>Joi.string().valid(...questionIds)\<close>: with ids, a key matches when it
  is one of them; for a catalog of no question \<open>valid()\<close> has no value to list and the
  pattern is the plain \<open>Joi.string()\<close>, which every string but the empty one matches.
\<close>

definition key_matches :: "string list \<Rightarrow> string \<Rightarrow> bool" where
  "key_matches questionIds k = (if questionIds = [] then k \<noteq> [] else k \<in> set questionIds)"

text \<open>
  The validator works on a copy of the body made with \<open>Object.assign\<close> onto a fresh
  object: an own key \<open>__proto__\<close> of the body is not a key of the copy.
\<close>

definition clone :: "object \<Rightarrow> object" where
  "clone obj = filter (\<lambda>(k, v). k \<noteq> ''__proto__'') obj"

text \<open>
  The keys that match the pattern have their values checked; the first violation ends the
  validation.
\<close>

fun pattern_errors :: "string list \<Rightarrow> (string \<times> json) list \<Rightarrow> validation_error option" where
  "pattern_errors questionIds [] = None"
| "pattern_errors questionIds ((k, v) # es) =
     (if key_matches questionIds k
      then (case joi_number k v of
              Some e \<Rightarrow> Some e
            | None \<Rightarrow> pattern_errors questionIds es)
      else pattern_errors questionIds es)"

text \<open>
  \<open>schema.validate(body)\<close>: only an object passes \<open>Joi.object()\<close>; the copy is what is
  validated; a key that matches no pattern is not allowed; \<open>.min(1)\<close> asks for one key at
  least. \<open>Inr\<close> carries the validated value, which is the copy. The body is what
  \<open>express.json()\<close> parsed, an object or an array.
\<close>

definition validate :: "string list \<Rightarrow> json \<Rightarrow> validation_error + object" where
  "validate questionIds req_body =
     (case req_body of
        JObj es \<Rightarrow>
          (let v = clone es in
           case pattern_errors questionIds v of
             Some e \<Rightarrow> Inl e
           | None \<Rightarrow>
               (case find (\<lambda>(k, x). \<not> key_matches questionIds k) v of
                  Some (k, x) \<Rightarrow> Inl (ObjectUnknown k)
                | None \<Rightarrow> if length v < 1 then Inl ObjectMin else Inr v))
      | _ \<Rightarrow> Inl ObjectBase)"

definition questionIds :: "state \<Rightarrow> string list" where
  "questionIds st = map q_id (questions st)"

text \<open>
  \<open>gameRun.responses = value\<close> (line 166): \<open>gameRun\<close> is the element that \<open>find\<close>
  returned, so the assignment changes the first run of the array with that id, in place.
\<close>

fun assign_responses :: "string \<Rightarrow> object \<Rightarrow> game_run list \<Rightarrow> game_run list" where
  "assign_responses runId v [] = []"
| "assign_responses runId v (g # gs) =
     (if run_id g = runId then g\<lparr>run_responses := v\<rparr> # gs
      else g # assign_responses runId v gs)"

text \<open>The handler of \<open>PUT /game-runs/:runId/responses\<close> (lines 151-176).\<close>

definition put_responses_handler :: "state \<Rightarrow> string \<Rightarrow> json \<Rightarrow> response \<times> state" where
  "put_responses_handler st runId req_body =
     (let gameRuns = read_game_runs st in
      case find (\<lambda>gameRun. run_id gameRun = runId) gameRuns of
        None \<Rightarrow> (SendStatus 404, st)
      | Some gameRun \<Rightarrow>
          (case validate (questionIds st) req_body of
             Inl error \<Rightarrow> (Send 400 (ErrorBody error), st)
           | Inr v \<Rightarrow>
               (SendStatus 200,
                write_game_runs
                  (map (\<lambda>gameRun. if run_id gameRun = runId then gameRun else gameRun)
                     (assign_responses runId v gameRuns))
                  st)))"

text \<open>The route: the JWT check, the ownership check, the handler (lines 147-151).\<close>

definition put_game_run_responses ::
  "state \<Rightarrow> token option \<Rightarrow> string \<Rightarrow> json \<Rightarrow> response \<times> state" where
  "put_game_run_responses st bearer runId req_body =
     (case jwt_strategy bearer of
        None \<Rightarrow> (SendStatus 401, st)
      | Some u \<Rightarrow>
          (case gameOwnerMiddleware st (Some u) runId of
             Some r \<Rightarrow> (r, st)
           | None \<Rightarrow> put_responses_handler st runId req_body))"

text \<open>
  The callback of the \<open>map\<close> over the entries (lines 199-204). Reading \<open>correctAnswer\<close>
  of the \<open>undefined\<close> that \<open>find\<close> returns for an unknown id throws a TypeError, which
  ends the whole \<open>map\<close>.
\<close>

fun score_entries :: "question list \<Rightarrow> (string \<times> json) list \<Rightarrow> js_error + (string \<times> json) list" where
  "score_entries qs [] = Inr []"
| "score_entries qs ((questionId, answerIndex) # es) =
     (case find (\<lambda>q. q_id q = questionId) qs of
        None \<Rightarrow> Inl TypeError
      | Some q \<Rightarrow>
          (case score_entries qs es of
             Inl e \<Rightarrow> Inl e
           | Inr rs \<Rightarrow>
               Inr ((questionId, JBool (strict_equals (q_correctAnswer q) answerIndex)) # rs)))"

text \<open>The handler of \<open>GET /game-runs/:runId/results\<close> (lines 184-207).\<close>

definition get_results_handler :: "state \<Rightarrow> string \<Rightarrow> js_error + response" where
  "get_results_handler st runId =
     (case find (\<lambda>gameRun. run_id gameRun = runId) (read_game_runs st) of
        None \<Rightarrow> Inr (SendStatus 404)
      | Some gameRun \<Rightarrow>
          (case score_entries (questions st) (entries (run_responses gameRun)) of
             Inl e \<Rightarrow> Inl e
           | Inr rs \<Rightarrow>
               Inr (Send 200 (JsonBody (JObj
                 [(''id'', JStr (run_id gameRun)),
                  (''userName'', JStr (run_userName gameRun)),
                  (''createdAt'', JNum (of_int (run_createdAt gameRun))),
                  (''responses'', JObj (fromEntries rs))])))))"

definition get_game_run_results :: "state \<Rightarrow> token option \<Rightarrow> string \<Rightarrow> js_error + response" where
  "get_game_run_results st bearer runId =
     (case jwt_strategy bearer of
        None \<Rightarrow> Inr (SendStatus 401)
      | Some u \<Rightarrow>
          (case gameOwnerMiddleware st (Some u) runId of
             Some r \<Rightarrow> Inr r
           | None \<Rightarrow> get_results_handler st runId))"

subsection \<open>A small instance\<close>

text \<open>
  Three questions, two users, and one run of Iris with two right answers and one wrong,
  on which the handlers are run below.
\<close>

definition example_questions :: "question list" where
  "example_questions =
     [\<lparr>q_id = ''q0'', q_question = ''first'', q_options = [''a'', ''b'', ''c'', ''d''],
       q_correctAnswer = 1\<rparr>,
      \<lparr>q_id = ''q1'', q_question = ''second'', q_options = [''e'', ''f'', ''g'', ''h''],
       q_correctAnswer = 2\<rparr>,
      \<lparr>q_id = ''q2'', q_question = ''third'', q_options = [''i'', ''j'', ''k'', ''l''],
       q_correctAnswer = 3\<rparr>]"

definition example_run :: game_run where
  "example_run =
     \<lparr>run_id = ''run-1'', run_userName = ''Iris'', run_createdAt = 1000,
      run_responses = [(''q0'', JNum 1), (''q1'', JNum 2), (''q2'', JNum 0)]\<rparr>"

definition example_state :: state where
  "example_state =
     \<lparr>users_file = [\<lparr>userName = ''Iris'', password = ''hash-123''\<rparr>,
                    \<lparr>userName = ''Max'', password = ''hash-456''\<rparr>],
      questions_file = example_questions,
      game_runs_file = [example_run],
      questions = example_questions\<rparr>"

text \<open>A run whose stored responses name a question that the catalog does not have.\<close>

definition stale_state :: state where
  "stale_state =
     example_state\<lparr>game_runs_file :=
       [example_run\<lparr>run_responses := [(''q0'', JNum 1), (''gone'', JNum 0)]\<rparr>]\<rparr>"

definition example_compare :: "string \<Rightarrow> string \<Rightarrow> bool" where
  "example_compare pw hash = (hash = ''hash-'' @ pw)"

text \<open>
  Users whose passwords are the empty one and one with a colon, stored as the hashes that
  \<open>example_compare\<close> accepts for them.
\<close>

definition odd_users_state :: state where
  "odd_users_state =
     example_state\<lparr>users_file :=
       [\<lparr>userName = ''Eve'', password = ''hash-''\<rparr>,
        \<lparr>userName = ''Zoe'', password = ''hash-1:2''\<rparr>,
        \<lparr>userName = ''Kim'', password = ''hash-1''\<rparr>]\<rparr>"



definition example_token :: "string \<Rightarrow> token" where
  "example_token name = jwt_sign name JWT_SECRET name"

section \<open>Properties\<close>

subsection \<open>Lists, objects and the schema\<close>

lemma find_Some_split:
  "find P xs = Some x \<Longrightarrow> \<exists>pre post. xs = pre @ x # post \<and> P x \<and> (\<forall>y\<in>set pre. \<not> P y)"
proof (induction xs)
  case Nil
  then show ?case by simp
next
  case (Cons a xs)
  show ?case
  proof (cases "P a")
    case True
    with Cons.prems have "a = x" by simp
    with True have "a # xs = [] @ x # xs \<and> P x \<and> (\<forall>y\<in>set []. \<not> P y)" by simp
    then show ?thesis by blast
  next
    case False
    with Cons.prems have "find P xs = Some x" by simp
    from Cons.IH [OF this] obtain pre post
      where "xs = pre @ x # post" "P x" "\<forall>y\<in>set pre. \<not> P y" by blast
    with False have "a # xs = (a # pre) @ x # post \<and> P x \<and> (\<forall>y\<in>set (a # pre). \<not> P y)"
      by simp
    then show ?thesis by blast
  qed
qed

lemma obj_set_fresh: "k \<notin> fst ` set obj \<Longrightarrow> obj_set k v obj = obj @ [(k, v)]"
  by (induction obj) auto

lemma foldl_obj_set_distinct:
  "distinct (map fst (acc @ es)) \<Longrightarrow> foldl (\<lambda>obj (k, v). obj_set k v obj) acc es = acc @ es"
proof (induction es arbitrary: acc)
  case Nil
  then show ?case by simp
next
  case (Cons e es)
  obtain k v where e: "e = (k, v)" by (cases e)
  from Cons.prems e have fresh: "k \<notin> fst ` set acc" by auto
  from Cons.prems e have "distinct (map fst ((acc @ [(k, v)]) @ es))" by simp
  from Cons.IH [OF this] fresh e show ?case by (simp add: obj_set_fresh)
qed

lemma fromEntries_distinct: "distinct (map fst es) \<Longrightarrow> fromEntries es = es"
  using foldl_obj_set_distinct [of "[]" es] by (simp add: fromEntries_def)

lemma score_entries_keys: "score_entries qs es = Inr rs \<Longrightarrow> map fst rs = map fst es"
  by (induction qs es arbitrary: rs rule: score_entries.induct)
     (auto split: option.splits sum.splits)

lemma score_entries_known:
  "\<forall>k\<in>set (map fst es). k \<in> set (map q_id qs) \<Longrightarrow> \<exists>rs. score_entries qs es = Inr rs"
proof (induction es)
  case Nil
  then show ?case by simp
next
  case (Cons e es)
  obtain k v where e: "e = (k, v)" by (cases e)
  from Cons.prems e have "k \<in> q_id ` set qs" by simp
  then have "find (\<lambda>q. q_id q = k) qs \<noteq> None" by (auto simp: find_None_iff)
  then obtain q where q: "find (\<lambda>q. q_id q = k) qs = Some q" by blast
  from Cons obtain rs where "score_entries qs es = Inr rs" by auto
  with q e show ?case by simp
qed

lemma score_entries_unknown:
  "\<exists>k\<in>set (map fst es). k \<notin> set (map q_id qs) \<Longrightarrow> score_entries qs es = Inl TypeError"
proof (induction es)
  case Nil
  then show ?case by simp
next
  case (Cons e es)
  obtain k v where e: "e = (k, v)" by (cases e)
  show ?case
  proof (cases "find (\<lambda>q. q_id q = k) qs")
    case None
    with e show ?thesis by simp
  next
    case (Some q)
    then have "k \<in> q_id ` set qs" by (auto dest: find_Some_split)
    with Cons.prems e have "\<exists>k\<in>set (map fst es). k \<notin> set (map q_id qs)" by auto
    from Cons.IH [OF this] Some e show ?thesis by simp
  qed
qed

lemma score_entries_value:
  "score_entries qs es = Inr rs \<Longrightarrow> distinct (map fst es) \<Longrightarrow> (k, v) \<in> set es \<Longrightarrow>
   \<exists>q. find (\<lambda>q. q_id q = k) qs = Some q \<and>
       map_of rs k = Some (JBool (v = JNum (of_int (q_correctAnswer q))))"
proof (induction qs es arbitrary: rs rule: score_entries.induct)
  case (1 qs)
  then show ?case by simp
next
  case (2 qs questionId answerIndex es)
  from "2.prems"(1) obtain q rs' where
    q: "find (\<lambda>q. q_id q = questionId) qs = Some q" and
    rs': "score_entries qs es = Inr rs'" and
    rs: "rs = (questionId, JBool (strict_equals (q_correctAnswer q) answerIndex)) # rs'"
    by (auto split: option.splits sum.splits)
  have se: "strict_equals n x = (x = JNum (of_int n))" for n x
    by (cases x) auto
  show ?case
  proof (cases "(k, v) = (questionId, answerIndex)")
    case True
    with q rs se show ?thesis by simp
  next
    case False
    with "2.prems" have mem: "(k, v) \<in> set es" and d: "distinct (map fst es)" by auto
    from "2.prems"(2) mem have "k \<noteq> questionId" by force
    moreover from "2.IH" [OF q rs' d mem] obtain q' where
      "find (\<lambda>q. q_id q = k) qs = Some q'"
      "map_of rs' k = Some (JBool (v = JNum (of_int (q_correctAnswer q'))))" by blast
    ultimately show ?thesis using rs by simp
  qed
qed







lemma split_on_free: "c \<notin> set s \<Longrightarrow> split_on c s = [s]"
  by (induction s) auto

lemma split_on_pair: "c \<notin> set a \<Longrightarrow> c \<notin> set b \<Longrightarrow> split_on c (a @ c # b) = [a, b]"
  by (induction a) (auto simp: split_on_free)


lemma owner_passes_find:
  "gameOwnerMiddleware st (Some u) runId = None \<Longrightarrow>
   \<exists>g. find (\<lambda>r. run_id r = runId) (game_runs_file st) = Some g \<and> run_userName g = p_userName u"
  by (auto simp: gameOwnerMiddleware_def read_game_runs_def split: option.splits if_splits)


lemma map_same: "map (\<lambda>g. if P g then g else g) xs = xs"
  by (induction xs) auto

lemma find_Some_holds: "find P xs = Some x \<Longrightarrow> P x"
  by (auto dest: find_Some_split)

lemma put_route_passed:
  assumes auth: "jwt_strategy bearer = Some u"
    and owner: "gameOwnerMiddleware st (Some u) runId = None"
  shows "put_game_run_responses st bearer runId b =
     (case validate (questionIds st) b of
        Inl error \<Rightarrow> (Send 400 (ErrorBody error), st)
      | Inr v \<Rightarrow>
          (SendStatus 200,
           st\<lparr>game_runs_file := assign_responses runId v (game_runs_file st)\<rparr>))"
proof -
  from owner_passes_find [OF owner] obtain g
    where "find (\<lambda>r. run_id r = runId) (game_runs_file st) = Some g" by blast
  with auth owner show ?thesis
    by (simp add: put_game_run_responses_def put_responses_handler_def read_game_runs_def
        write_game_runs_def map_same split: sum.splits)
qed

lemma find_assign_responses:
  "find (\<lambda>r. run_id r = runId) (assign_responses runId v gs) =
     map_option (\<lambda>g. g\<lparr>run_responses := v\<rparr>) (find (\<lambda>r. run_id r = runId) gs)"
  by (induction gs) auto

lemma assign_responses_twice:
  "assign_responses runId v (assign_responses runId v gs) = assign_responses runId v gs"
  by (induction gs) auto

lemma owner_after_assign:
  "gameOwnerMiddleware (st\<lparr>game_runs_file := assign_responses runId v (game_runs_file st)\<rparr>)
     req_user runId = gameOwnerMiddleware st req_user runId"
  by (simp add: gameOwnerMiddleware_def read_game_runs_def find_assign_responses
      split: option.splits)

lemma put_twice:
  "put_game_run_responses (snd (put_game_run_responses st bearer runId b)) bearer runId b =
   put_game_run_responses st bearer runId b"
proof (cases "jwt_strategy bearer")
  case None
  then show ?thesis by (simp add: put_game_run_responses_def)
next
  case (Some u)
  note auth = this
  show ?thesis
  proof (cases "gameOwnerMiddleware st (Some u) runId")
    case (Some r)
    with auth show ?thesis by (simp add: put_game_run_responses_def)
  next
    case None
    note owner = this
    show ?thesis
    proof (cases "validate (questionIds st) b")
      case (Inl e)
      with put_route_passed [OF auth owner, of b] show ?thesis by simp
    next
      case (Inr v)
      let ?st1 = "st\<lparr>game_runs_file := assign_responses runId v (game_runs_file st)\<rparr>"
      from Inr put_route_passed [OF auth owner, of b]
      have first: "put_game_run_responses st bearer runId b = (SendStatus 200, ?st1)" by simp
      have owner1: "gameOwnerMiddleware ?st1 (Some u) runId = None"
        using owner by (simp add: owner_after_assign)
      from Inr have "validate (questionIds ?st1) b = Inr v" by (simp add: questionIds_def)
      with put_route_passed [OF auth owner1, of b]
      have "put_game_run_responses ?st1 bearer runId b = (SendStatus 200, ?st1)"
        by (simp add: assign_responses_twice)
      with first show ?thesis by simp
    qed
  qed
qed

lemmas example_defs = example_questions_def example_run_def example_state_def stale_state_def
  example_compare_def example_token_def jwt_sign_def JWT_SECRET_def

lemmas handler_defs = jwt_strategy_def gameOwnerMiddleware_def read_game_runs_def
  read_users_def read_questions_def write_game_runs_def

lemmas schema_defs = validate_def clone_def key_matches_def questionIds_def is_integer_def

subsection \<open>Scoring a run\<close>

text \<open>
  Claim C1. For a run whose responses name known questions only, the results route, past
  the token and ownership checks, answers 200 with the run's id, userName and createdAt and
  a map \<open>responses\<close> that has the keys of the run's responses, in their order, each key
  with the boolean "the submitted value is the number \<open>correctAnswer\<close> of the question
  that \<open>find\<close> gives for the key".
\<close>

theorem results_score_each_response:
  assumes auth: "jwt_strategy bearer = Some u"
    and owner: "gameOwnerMiddleware st (Some u) runId = None"
    and run: "find (\<lambda>r. run_id r = runId) (game_runs_file st) = Some g"
    and keys: "distinct (map fst (run_responses g))"
    and known: "\<forall>k\<in>set (map fst (run_responses g)). k \<in> set (map q_id (questions st))"
  shows "\<exists>rs. get_game_run_results st bearer runId =
           Inr (Send 200 (JsonBody (JObj
             [(''id'', JStr (run_id g)),
              (''userName'', JStr (run_userName g)),
              (''createdAt'', JNum (of_int (run_createdAt g))),
              (''responses'', JObj rs)])))
         \<and> map fst rs = map fst (run_responses g)
         \<and> (\<forall>(k, v)\<in>set (run_responses g).
              \<exists>q. find (\<lambda>q. q_id q = k) (questions st) = Some q
                \<and> map_of rs k = Some (JBool (v = JNum (of_int (q_correctAnswer q)))))"
proof -
  from score_entries_known [OF known] obtain rs
    where rs: "score_entries (questions st) (run_responses g) = Inr rs" by blast
  have ks: "map fst rs = map fst (run_responses g)"
    by (rule score_entries_keys [OF rs])
  with keys have "fromEntries rs = rs" by (simp add: fromEntries_distinct)
  with auth owner run rs have
    "get_game_run_results st bearer runId =
       Inr (Send 200 (JsonBody (JObj
         [(''id'', JStr (run_id g)),
          (''userName'', JStr (run_userName g)),
          (''createdAt'', JNum (of_int (run_createdAt g))),
          (''responses'', JObj rs)])))"
    by (simp add: get_game_run_results_def get_results_handler_def read_game_runs_def
        entries_def)
  moreover have "\<forall>(k, v)\<in>set (run_responses g).
      \<exists>q. find (\<lambda>q. q_id q = k) (questions st) = Some q
        \<and> map_of rs k = Some (JBool (v = JNum (of_int (q_correctAnswer q))))"
    using score_entries_value [OF rs keys] by blast
  ultimately show ?thesis using ks by blast
qed

theorem results_score_each_response_witness:
  "jwt_strategy (Some (example_token ''Iris'')) = Some \<lparr>p_userName = ''Iris''\<rparr>
   \<and> gameOwnerMiddleware example_state (Some \<lparr>p_userName = ''Iris''\<rparr>) ''run-1'' = None
   \<and> get_game_run_results example_state (Some (example_token ''Iris'')) ''run-1'' =
       Inr (Send 200 (JsonBody (JObj
         [(''id'', JStr ''run-1''),
          (''userName'', JStr ''Iris''),
          (''createdAt'', JNum 1000),
          (''responses'', JObj [(''q0'', JBool True), (''q1'', JBool True), (''q2'', JBool False)])])))"
proof -
  have auth: "jwt_strategy (Some (example_token ''Iris'')) = Some \<lparr>p_userName = ''Iris''\<rparr>"
    by (simp add: handler_defs example_defs)
  have owner: "gameOwnerMiddleware example_state (Some \<lparr>p_userName = ''Iris''\<rparr>) ''run-1'' = None"
    by (simp add: handler_defs example_defs)
  have run: "find (\<lambda>r. run_id r = ''run-1'') (game_runs_file example_state) = Some example_run"
    by (simp add: example_defs)
  have keys: "distinct (map fst (run_responses example_run))"
    by (simp add: example_defs)
  have known: "\<forall>k\<in>set (map fst (run_responses example_run)).
      k \<in> set (map q_id (questions example_state))"
    by (simp add: example_defs)
  from results_score_each_response [OF auth owner run keys known] obtain rs where
    res: "get_game_run_results example_state (Some (example_token ''Iris'')) ''run-1'' =
           Inr (Send 200 (JsonBody (JObj
             [(''id'', JStr (run_id example_run)),
              (''userName'', JStr (run_userName example_run)),
              (''createdAt'', JNum (of_int (run_createdAt example_run))),
              (''responses'', JObj rs)])))"
    by blast
  have "get_game_run_results example_state (Some (example_token ''Iris'')) ''run-1'' =
       Inr (Send 200 (JsonBody (JObj
         [(''id'', JStr ''run-1''),
          (''userName'', JStr ''Iris''),
          (''createdAt'', JNum 1000),
          (''responses'', JObj [(''q0'', JBool True), (''q1'', JBool True), (''q2'', JBool False)])])))"
    by (simp add: get_game_run_results_def get_results_handler_def entries_def fromEntries_def
        handler_defs example_defs)
  with auth owner show ?thesis by simp
qed

text \<open>
  Claim C2, as the code has it. The claim says that scoring never raises and that an entry
  with an unknown question id comes out as \<open>false\<close>. The callback reads \<open>correctAnswer\<close>
  of what \<open>find\<close> returned, so on the run of \<open>stale_state\<close>, whose responses name the
  question \<open>gone\<close>, the route raises a TypeError and no map is sent.
\<close>

theorem results_unknown_id_counterexample:
  "jwt_strategy (Some (example_token ''Iris'')) = Some \<lparr>p_userName = ''Iris''\<rparr>
   \<and> gameOwnerMiddleware stale_state (Some \<lparr>p_userName = ''Iris''\<rparr>) ''run-1'' = None
   \<and> ''gone'' \<notin> set (map q_id (questions stale_state))
   \<and> get_game_run_results stale_state (Some (example_token ''Iris'')) ''run-1'' = Inl TypeError"
  by (simp add: get_game_run_results_def get_results_handler_def entries_def
      handler_defs example_defs)

text \<open>
  Claim C2, amended. Past the token and ownership checks, scoring returns a response when
  every key of the run's responses is the id of a question of the catalog, and raises a
  TypeError when one is not.
\<close>

theorem results_raise_on_unknown_id:
  assumes auth: "jwt_strategy bearer = Some u"
    and owner: "gameOwnerMiddleware st (Some u) runId = None"
    and run: "find (\<lambda>r. run_id r = runId) (game_runs_file st) = Some g"
  shows "if \<forall>k\<in>set (map fst (run_responses g)). k \<in> set (map q_id (questions st))
         then \<exists>r. get_game_run_results st bearer runId = Inr r
         else get_game_run_results st bearer runId = Inl TypeError"
proof -
  have route: "get_game_run_results st bearer runId =
      (case score_entries (questions st) (run_responses g) of
         Inl e \<Rightarrow> Inl e
       | Inr rs \<Rightarrow>
           Inr (Send 200 (JsonBody (JObj
             [(''id'', JStr (run_id g)),
              (''userName'', JStr (run_userName g)),
              (''createdAt'', JNum (of_int (run_createdAt g))),
              (''responses'', JObj (fromEntries rs))]))))"
    using auth owner run
    by (simp add: get_game_run_results_def get_results_handler_def read_game_runs_def
        entries_def)
  show ?thesis
  proof (cases "\<forall>k\<in>set (map fst (run_responses g)). k \<in> set (map q_id (questions st))")
    case True
    from score_entries_known [OF True] obtain rs
      where "score_entries (questions st) (run_responses g) = Inr rs" by blast
    with route True show ?thesis by simp
  next
    case False
    then have "\<exists>k\<in>set (map fst (run_responses g)). k \<notin> set (map q_id (questions st))"
      by blast
    from score_entries_unknown [OF this] route False show ?thesis by simp
  qed
qed

theorem results_raise_on_unknown_id_witness:
  "jwt_strategy (Some (example_token ''Iris'')) = Some \<lparr>p_userName = ''Iris''\<rparr>
   \<and> gameOwnerMiddleware stale_state (Some \<lparr>p_userName = ''Iris''\<rparr>) ''run-1'' = None
   \<and> map fst (run_responses (the (find (\<lambda>r. run_id r = ''run-1'') (game_runs_file stale_state))))
       = [''q0'', ''gone'']
   \<and> get_game_run_results stale_state (Some (example_token ''Iris'')) ''run-1'' = Inl TypeError
   \<and> (\<exists>r. get_game_run_results example_state (Some (example_token ''Iris'')) ''run-1'' = Inr r)"
proof -
  let ?stale = "example_run\<lparr>run_responses := [(''q0'', JNum 1), (''gone'', JNum 0)]\<rparr>"
  have auth: "jwt_strategy (Some (example_token ''Iris'')) = Some \<lparr>p_userName = ''Iris''\<rparr>"
    by (simp add: handler_defs example_defs)
  have owner: "gameOwnerMiddleware stale_state (Some \<lparr>p_userName = ''Iris''\<rparr>) ''run-1'' = None"
    by (simp add: handler_defs example_defs)
  have run: "find (\<lambda>r. run_id r = ''run-1'') (game_runs_file stale_state) = Some ?stale"
    by (simp add: example_defs)
  have unknown: "\<not> (\<forall>k\<in>set (map fst (run_responses ?stale)).
      k \<in> set (map q_id (questions stale_state)))"
    by (simp add: example_defs)
  from results_raise_on_unknown_id [OF auth owner run] unknown
  have raised: "get_game_run_results stale_state (Some (example_token ''Iris'')) ''run-1'' =
      Inl TypeError"
    by (simp only: if_False)
  have owner': "gameOwnerMiddleware example_state (Some \<lparr>p_userName = ''Iris''\<rparr>) ''run-1'' = None"
    by (simp add: handler_defs example_defs)
  have run': "find (\<lambda>r. run_id r = ''run-1'') (game_runs_file example_state) = Some example_run"
    by (simp add: example_defs)
  have known: "\<forall>k\<in>set (map fst (run_responses example_run)).
      k \<in> set (map q_id (questions example_state))"
    by (simp add: example_defs)
  from results_raise_on_unknown_id [OF auth owner' run'] known
  have returned: "\<exists>r. get_game_run_results example_state (Some (example_token ''Iris'')) ''run-1'' = Inr r"
    by (simp only: if_True)
  from run have "map fst (run_responses (the (find (\<lambda>r. run_id r = ''run-1'')
      (game_runs_file stale_state)))) = [''q0'', ''gone'']"
    by simp
  with auth owner raised returned show ?thesis by simp
qed

subsection \<open>Submitting responses\<close>







text \<open>
  Claim C10. Past the token and ownership checks, the empty object is answered with 400:
  no key and no value breaks a rule, and \<open>.min(1)\<close> rejects it. The state is unchanged.
\<close>

theorem empty_submission_rejected:
  assumes auth: "jwt_strategy bearer = Some u"
    and owner: "gameOwnerMiddleware st (Some u) runId = None"
  shows "put_game_run_responses st bearer runId (JObj []) =
           (Send 400 (ErrorBody ObjectMin), st)"
  using put_route_passed [OF auth owner, of "JObj []"]
  by (simp add: validate_def clone_def Let_def)

theorem empty_submission_rejected_witness:
  "jwt_strategy (Some (example_token ''Iris'')) = Some \<lparr>p_userName = ''Iris''\<rparr>
   \<and> gameOwnerMiddleware example_state (Some \<lparr>p_userName = ''Iris''\<rparr>) ''run-1'' = None
   \<and> put_game_run_responses example_state (Some (example_token ''Iris'')) ''run-1'' (JObj []) =
       (Send 400 (ErrorBody ObjectMin), example_state)"
proof -
  have auth: "jwt_strategy (Some (example_token ''Iris'')) = Some \<lparr>p_userName = ''Iris''\<rparr>"
    by (simp add: handler_defs example_defs)
  have owner: "gameOwnerMiddleware example_state (Some \<lparr>p_userName = ''Iris''\<rparr>) ''run-1'' = None"
    by (simp add: handler_defs example_defs)
  from empty_submission_rejected [OF auth owner] auth owner show ?thesis by simp
qed

subsection \<open>Creating a run\<close>

text \<open>
  Claim C5. With a token that the JWT strategy accepts, \<open>POST /game-runs\<close> answers 200
  with the generated \<open>runId\<close> and appends to the file a run with that id, the token's
  \<open>userName\<close>, the clock's value as \<open>createdAt\<close> and no responses.
\<close>

theorem create_stores_empty_run:
  assumes auth: "jwt_strategy bearer = Some u"
  shows "\<exists>t. bearer = Some t \<and> p_userName u = tok_userName t
         \<and> post_game_runs st bearer runId now =
             (Send 200 (JsonBody (JObj [(''runId'', JStr runId)])),
              st\<lparr>game_runs_file := game_runs_file st @
                 [\<lparr>run_id = runId, run_userName = tok_userName t, run_createdAt = now,
                   run_responses = []\<rparr>]\<rparr>)"
  using auth
  by (auto simp: post_game_runs_def jwt_strategy_def read_game_runs_def write_game_runs_def
      split: option.splits if_splits)

theorem create_stores_empty_run_witness:
  "jwt_strategy (Some (example_token ''Max'')) = Some \<lparr>p_userName = ''Max''\<rparr>
   \<and> post_game_runs example_state (Some (example_token ''Max'')) ''run-2'' 2000 =
       (Send 200 (JsonBody (JObj [(''runId'', JStr ''run-2'')])),
        example_state\<lparr>game_runs_file :=
          [example_run,
           \<lparr>run_id = ''run-2'', run_userName = ''Max'', run_createdAt = 2000,
             run_responses = []\<rparr>]\<rparr>)"
proof -
  have auth: "jwt_strategy (Some (example_token ''Max'')) = Some \<lparr>p_userName = ''Max''\<rparr>"
    by (simp add: handler_defs example_defs)
  from create_stores_empty_run [OF auth, of example_state "''run-2''" 2000] obtain t where
    t: "Some (example_token ''Max'') = Some t" and
    post: "post_game_runs example_state (Some (example_token ''Max'')) ''run-2'' 2000 =
             (Send 200 (JsonBody (JObj [(''runId'', JStr ''run-2'')])),
              example_state\<lparr>game_runs_file := game_runs_file example_state @
                 [\<lparr>run_id = ''run-2'', run_userName = tok_userName t, run_createdAt = 2000,
                   run_responses = []\<rparr>]\<rparr>)"
    by blast
  from t have "tok_userName t = ''Max''" by (auto simp: example_token_def jwt_sign_def)
  moreover have "game_runs_file example_state = [example_run]" by (simp add: example_state_def)
  ultimately show ?thesis using auth post by simp
qed

subsection \<open>The ownership check\<close>

text \<open>
  Claim C6. For an authenticated request, submitting responses and asking for results
  answer alike: 404 when no stored run has the id, 403 when the run that \<open>find\<close> gives
  belongs to another user, whatever the submitted body is; the state stays as it was.
\<close>

theorem ownership_check_order:
  assumes auth: "jwt_strategy bearer = Some u"
  shows "(find (\<lambda>r. run_id r = runId) (game_runs_file st) = None \<longrightarrow>
            put_game_run_responses st bearer runId req_body = (SendStatus 404, st)
          \<and> get_game_run_results st bearer runId = Inr (SendStatus 404))
       \<and> (\<forall>g. find (\<lambda>r. run_id r = runId) (game_runs_file st) = Some g
              \<and> run_userName g \<noteq> p_userName u \<longrightarrow>
            put_game_run_responses st bearer runId req_body = (SendStatus 403, st)
          \<and> get_game_run_results st bearer runId = Inr (SendStatus 403))"
  using auth
  by (simp add: put_game_run_responses_def get_game_run_results_def gameOwnerMiddleware_def
      read_game_runs_def)

theorem ownership_check_order_witness:
  "jwt_strategy (Some (example_token ''Max'')) = Some \<lparr>p_userName = ''Max''\<rparr>
   \<and> find (\<lambda>r. run_id r = ''oops'') (game_runs_file example_state) = None
   \<and> put_game_run_responses example_state (Some (example_token ''Max'')) ''oops''
        (JObj [(''q0'', JNum 1)]) = (SendStatus 404, example_state)
   \<and> get_game_run_results example_state (Some (example_token ''Max'')) ''oops'' =
        Inr (SendStatus 404)
   \<and> find (\<lambda>r. run_id r = ''run-1'') (game_runs_file example_state) = Some example_run
   \<and> run_userName example_run \<noteq> ''Max''
   \<and> put_game_run_responses example_state (Some (example_token ''Max'')) ''run-1''
        (JObj [(''q0'', JNum 1)]) = (SendStatus 403, example_state)
   \<and> get_game_run_results example_state (Some (example_token ''Max'')) ''run-1'' =
        Inr (SendStatus 403)"
proof -
  have auth: "jwt_strategy (Some (example_token ''Max'')) = Some \<lparr>p_userName = ''Max''\<rparr>"
    by (simp add: handler_defs example_defs)
  have missing: "find (\<lambda>r. run_id r = ''oops'') (game_runs_file example_state) = None"
    by (simp add: example_defs)
  have found: "find (\<lambda>r. run_id r = ''run-1'') (game_runs_file example_state) = Some example_run"
    by (simp add: example_defs)
  have other: "run_userName example_run \<noteq> p_userName \<lparr>p_userName = ''Max''\<rparr>"
    by (simp add: example_defs)
  from ownership_check_order [OF auth, of "''oops''" example_state "JObj [(''q0'', JNum 1)]"]
    missing
  have nf: "put_game_run_responses example_state (Some (example_token ''Max'')) ''oops''
        (JObj [(''q0'', JNum 1)]) = (SendStatus 404, example_state)
      \<and> get_game_run_results example_state (Some (example_token ''Max'')) ''oops'' =
        Inr (SendStatus 404)"
    by blast
  from ownership_check_order [OF auth, of "''run-1''" example_state "JObj [(''q0'', JNum 1)]"]
    found other
  have fb: "put_game_run_responses example_state (Some (example_token ''Max'')) ''run-1''
        (JObj [(''q0'', JNum 1)]) = (SendStatus 403, example_state)
      \<and> get_game_run_results example_state (Some (example_token ''Max'')) ''run-1'' =
        Inr (SendStatus 403)"
    by blast
  from other have "run_userName example_run \<noteq> ''Max''" by simp
  with auth missing found nf fb show ?thesis by blast
qed

subsection \<open>The question catalog\<close>

text \<open>
  Claim C7. \<open>GET /questions\<close> answers with one object per question of the file, in the
  file's order, each with the keys id, question and options and no other;
  \<open>GET /questions/:questionId\<close> answers 404 when no question has the id, and otherwise
  with the id, question and options of the first question that has it, \<open>correctAnswer\<close>
  deleted.
\<close>

theorem catalog_never_exposes_answer:
  "(\<exists>objs. get_questions st = Send 200 (JsonBody (JArr (map JObj objs)))
      \<and> objs = map (\<lambda>q. [(''id'', JStr (q_id q)),
                          (''question'', JStr (q_question q)),
                          (''options'', JArr (map JStr (q_options q)))]) (questions_file st)
      \<and> (\<forall>obj\<in>set objs. map fst obj = [''id'', ''question'', ''options'']))
   \<and> (find (\<lambda>q. q_id q = questionId) (questions_file st) = None \<longrightarrow>
        get_question st questionId = SendStatus 404)
   \<and> (\<forall>q. find (\<lambda>q. q_id q = questionId) (questions_file st) = Some q \<longrightarrow>
        q_id q = questionId
      \<and> get_question st questionId =
          Send 200 (JsonBody (JObj [(''id'', JStr (q_id q)),
                                     (''question'', JStr (q_question q)),
                                     (''options'', JArr (map JStr (q_options q)))])))"
proof -
  have "get_questions st = Send 200 (JsonBody (JArr (map JObj
      (map (\<lambda>q. [(''id'', JStr (q_id q)),
                  (''question'', JStr (q_question q)),
                  (''options'', JArr (map JStr (q_options q)))]) (questions_file st)))))"
    by (simp add: get_questions_def read_questions_def comp_def)
  moreover have "\<forall>obj\<in>set (map (\<lambda>q. [(''id'', JStr (q_id q)),
                  (''question'', JStr (q_question q)),
                  (''options'', JArr (map JStr (q_options q)))]) (questions_file st)).
      map fst obj = [''id'', ''question'', ''options'']"
    by auto
  moreover have "find (\<lambda>q. q_id q = questionId) (questions_file st) = None \<longrightarrow>
        get_question st questionId = SendStatus 404"
    by (simp add: get_question_def read_questions_def)
  moreover have "\<forall>q. find (\<lambda>q. q_id q = questionId) (questions_file st) = Some q \<longrightarrow>
        q_id q = questionId
      \<and> get_question st questionId =
          Send 200 (JsonBody (JObj [(''id'', JStr (q_id q)),
                                     (''question'', JStr (q_question q)),
                                     (''options'', JArr (map JStr (q_options q)))]))"
    by (auto simp: get_question_def read_questions_def delete_property_def question_object_def
        dest: find_Some_holds)
  ultimately show ?thesis by blast
qed

theorem catalog_never_exposes_answer_witness:
  "get_questions example_state =
     Send 200 (JsonBody (JArr
       [JObj [(''id'', JStr ''q0''), (''question'', JStr ''first''),
              (''options'', JArr [JStr ''a'', JStr ''b'', JStr ''c'', JStr ''d''])],
        JObj [(''id'', JStr ''q1''), (''question'', JStr ''second''),
              (''options'', JArr [JStr ''e'', JStr ''f'', JStr ''g'', JStr ''h''])],
        JObj [(''id'', JStr ''q2''), (''question'', JStr ''third''),
              (''options'', JArr [JStr ''i'', JStr ''j'', JStr ''k'', JStr ''l''])]]))
   \<and> find (\<lambda>q. q_id q = ''oops'') (questions_file example_state) = None
   \<and> get_question example_state ''oops'' = SendStatus 404
   \<and> get_question example_state ''q1'' =
       Send 200 (JsonBody (JObj [(''id'', JStr ''q1''), (''question'', JStr ''second''),
              (''options'', JArr [JStr ''e'', JStr ''f'', JStr ''g'', JStr ''h''])]))"
proof -
  have missing: "find (\<lambda>q. q_id q = ''oops'') (questions_file example_state) = None"
    by (simp add: example_defs)
  have found: "find (\<lambda>q. q_id q = ''q1'') (questions_file example_state) =
      Some \<lparr>q_id = ''q1'', q_question = ''second'', q_options = [''e'', ''f'', ''g'', ''h''],
            q_correctAnswer = 2\<rparr>"
    by (simp add: example_defs)
  have files: "questions_file example_state = example_questions"
    by (simp add: example_state_def)
  from catalog_never_exposes_answer [of example_state "''oops''"] missing
  have a: "get_question example_state ''oops'' = SendStatus 404" by blast
  from catalog_never_exposes_answer [of example_state "''q1''"] found
  have b: "get_question example_state ''q1'' =
       Send 200 (JsonBody (JObj [(''id'', JStr ''q1''), (''question'', JStr ''second''),
              (''options'', JArr [JStr ''e'', JStr ''f'', JStr ''g'', JStr ''h''])]))"
    by simp
  from catalog_never_exposes_answer [of example_state "''q1''"]
  have "get_questions example_state = Send 200 (JsonBody (JArr (map JObj
      (map (\<lambda>q. [(''id'', JStr (q_id q)),
                  (''question'', JStr (q_question q)),
                  (''options'', JArr (map JStr (q_options q)))])
         (questions_file example_state)))))"
    by blast
  then have c: "get_questions example_state =
     Send 200 (JsonBody (JArr
       [JObj [(''id'', JStr ''q0''), (''question'', JStr ''first''),
              (''options'', JArr [JStr ''a'', JStr ''b'', JStr ''c'', JStr ''d''])],
        JObj [(''id'', JStr ''q1''), (''question'', JStr ''second''),
              (''options'', JArr [JStr ''e'', JStr ''f'', JStr ''g'', JStr ''h''])],
        JObj [(''id'', JStr ''q2''), (''question'', JStr ''third''),
              (''options'', JArr [JStr ''i'', JStr ''j'', JStr ''k'', JStr ''l''])]]))"
    by (simp add: files example_questions_def)
  from a b c missing show ?thesis by simp
qed

subsection \<open>Authentication\<close>

text \<open>
  Claim C8, as the code has it. The claim says that a correct pair is always answered 200
  and a wrong password 401. Eve's password is the empty one, and the right pair for her is
  answered 401 without the callback being called; Zoe's password \<open>1:2\<close> has a colon, the
  callback gets \<open>1\<close>, and the right pair is answered 401; Kim's password is \<open>1\<close>, and the
  wrong password \<open>1:2\<close> is answered 200 with a token for Kim.
\<close>

theorem correct_pair_refused_counterexample:
  "find (\<lambda>u. userName u = ''Eve'') (users_file odd_users_state) =
     Some \<lparr>userName = ''Eve'', password = ''hash-''\<rparr>
   \<and> example_compare [] ''hash-''
   \<and> post_authenticate example_compare odd_users_state ''Eve'' [] = SendStatus 401
   \<and> find (\<lambda>u. userName u = ''Zoe'') (users_file odd_users_state) =
     Some \<lparr>userName = ''Zoe'', password = ''hash-1:2''\<rparr>
   \<and> example_compare ''1:2'' ''hash-1:2''
   \<and> post_authenticate example_compare odd_users_state ''Zoe'' ''1:2'' = SendStatus 401
   \<and> find (\<lambda>u. userName u = ''Kim'') (users_file odd_users_state) =
     Some \<lparr>userName = ''Kim'', password = ''hash-1''\<rparr>
   \<and> \<not> example_compare ''1:2'' ''hash-1''
   \<and> post_authenticate example_compare odd_users_state ''Kim'' ''1:2'' =
     Send 200 (TokenBody \<lparr>tok_userName = ''Kim'', tok_sub = ''Kim'', tok_secret = JWT_SECRET\<rparr>)"
  by (simp add: post_authenticate_def basic_strategy_def read_users_def Let_def
      odd_users_state_def example_compare_def jwt_sign_def example_state_def)

text \<open>
  Claim C8, amended. For a name and a password without a colon: when neither is empty and
  the first user of that name has a password hash that \<open>bcrypt.compare\<close> accepts for the
  supplied password, \<open>POST /authenticate\<close> answers 200 with a token signed with the
  service's secret whose \<open>userName\<close> and subject are the supplied name, and which the JWT
  strategy reads back as that name. A wrong password and an unknown name are both answered
  with the same 401, and so is an empty name or an empty password.
\<close>

theorem authenticate_outcomes:
  assumes name: "CHR '':'' \<notin> set name"
    and pw: "CHR '':'' \<notin> set pw"
  shows "(\<forall>u. name \<noteq> [] \<and> pw \<noteq> []
            \<and> find (\<lambda>u. userName u = name) (users_file st) = Some u
            \<and> compare pw (password u) \<longrightarrow>
          (\<exists>t. post_authenticate compare st name pw = Send 200 (TokenBody t)
             \<and> tok_userName t = name \<and> tok_sub t = name \<and> tok_secret t = JWT_SECRET
             \<and> jwt_strategy (Some t) = Some \<lparr>p_userName = name\<rparr>))
       \<and> (\<forall>u. find (\<lambda>u. userName u = name) (users_file st) = Some u
            \<and> \<not> compare pw (password u) \<longrightarrow>
          post_authenticate compare st name pw = SendStatus 401)
       \<and> (find (\<lambda>u. userName u = name) (users_file st) = None \<longrightarrow>
          post_authenticate compare st name pw = SendStatus 401)
       \<and> (name = [] \<or> pw = [] \<longrightarrow>
          post_authenticate compare st name pw = SendStatus 401)"
proof -
  from name pw have "split_on CHR '':'' (name @ '':'' @ pw) = [name, pw]"
    by (simp add: split_on_pair)
  then have route: "post_authenticate compare st name pw =
      (if name = [] \<or> pw = [] then SendStatus 401
       else (case basic_strategy compare st name pw of
               None \<Rightarrow> SendStatus 401
             | Some u \<Rightarrow>
                 Send 200 (TokenBody (jwt_sign (userName u) JWT_SECRET (userName u)))))"
    by (simp add: post_authenticate_def Let_def)
  show ?thesis
    unfolding route
    by (auto simp: basic_strategy_def read_users_def jwt_sign_def jwt_strategy_def
        dest: find_Some_holds)
qed

theorem authenticate_outcomes_witness:
  "CHR '':'' \<notin> set ''Iris'' \<and> CHR '':'' \<notin> set ''123'' \<and> CHR '':'' \<notin> set ''1233''
   \<and> CHR '':'' \<notin> set ''Nobody''
   \<and> post_authenticate example_compare example_state ''Iris'' ''123'' =
     Send 200 (TokenBody \<lparr>tok_userName = ''Iris'', tok_sub = ''Iris'', tok_secret = JWT_SECRET\<rparr>)
   \<and> post_authenticate example_compare example_state ''Iris'' ''1233'' = SendStatus 401
   \<and> post_authenticate example_compare example_state ''Nobody'' ''123'' = SendStatus 401
   \<and> post_authenticate example_compare example_state ''Iris'' [] = SendStatus 401"
proof -
  let ?iris = "\<lparr>userName = ''Iris'', password = ''hash-123''\<rparr>"
  have n1: "CHR '':'' \<notin> set ''Iris''" by simp
  have n2: "CHR '':'' \<notin> set ''Nobody''" by simp
  have p1: "CHR '':'' \<notin> set ''123''" by simp
  have p2: "CHR '':'' \<notin> set ''1233''" by simp
  have p3: "CHR '':'' \<notin> set []" by simp
  have found: "find (\<lambda>u. userName u = ''Iris'') (users_file example_state) = Some ?iris"
    by (simp add: example_defs)
  have missing: "find (\<lambda>u. userName u = ''Nobody'') (users_file example_state) = None"
    by (simp add: example_defs)
  have right: "example_compare ''123'' (password ?iris)"
    by (simp add: example_compare_def)
  have wrong: "\<not> example_compare ''1233'' (password ?iris)"
    by (simp add: example_compare_def)
  have full: "''Iris'' \<noteq> [] \<and> ''123'' \<noteq> []" by simp
  from authenticate_outcomes [OF n1 p1, of example_state example_compare] found right full
  obtain t where
    "post_authenticate example_compare example_state ''Iris'' ''123'' = Send 200 (TokenBody t)"
    "tok_userName t = ''Iris''" "tok_sub t = ''Iris''" "tok_secret t = JWT_SECRET"
    by blast
  then have a: "post_authenticate example_compare example_state ''Iris'' ''123'' =
     Send 200 (TokenBody \<lparr>tok_userName = ''Iris'', tok_sub = ''Iris'', tok_secret = JWT_SECRET\<rparr>)"
    by (cases t) simp
  from authenticate_outcomes [OF n1 p2, of example_state example_compare] found wrong
  have b: "post_authenticate example_compare example_state ''Iris'' ''1233'' = SendStatus 401"
    by blast
  from authenticate_outcomes [OF n2 p1, of example_state example_compare] missing
  have c: "post_authenticate example_compare example_state ''Nobody'' ''123'' = SendStatus 401"
    by blast
  from authenticate_outcomes [OF n1 p3, of example_state example_compare]
  have d: "post_authenticate example_compare example_state ''Iris'' [] = SendStatus 401"
    by blast
  from a b c d n1 n2 p1 p2 show ?thesis by simp
qed

subsection \<open>Submitting twice\<close>

text \<open>
  Claim C9. For a valid submitted object, the same request made a second time gives the
  response and the state of the first, so the state after two submissions is the state
  after one, and the results computed from either are the same.
\<close>

theorem submission_idempotent:
  assumes nonempty: "es \<noteq> []"
    and valid: "\<forall>(k, v)\<in>set es. k \<in> set (map q_id (questions st)) \<and> v \<in> JNum ` of_int ` {0..3}"
  shows "put_game_run_responses (snd (put_game_run_responses st bearer runId (JObj es)))
            bearer runId (JObj es) =
           put_game_run_responses st bearer runId (JObj es)
         \<and> get_game_run_results
             (snd (put_game_run_responses
                (snd (put_game_run_responses st bearer runId (JObj es))) bearer runId (JObj es)))
             bearer runId =
           get_game_run_results (snd (put_game_run_responses st bearer runId (JObj es)))
             bearer runId"
  using put_twice [of st bearer runId "JObj es"] by simp

theorem submission_idempotent_witness:
  "[(''q2'', JNum 3)] \<noteq> []
   \<and> put_game_run_responses
       (snd (put_game_run_responses example_state (Some (example_token ''Iris'')) ''run-1''
          (JObj [(''q2'', JNum 3)])))
       (Some (example_token ''Iris'')) ''run-1'' (JObj [(''q2'', JNum 3)]) =
     put_game_run_responses example_state (Some (example_token ''Iris'')) ''run-1''
       (JObj [(''q2'', JNum 3)])
   \<and> snd (put_game_run_responses example_state (Some (example_token ''Iris'')) ''run-1''
       (JObj [(''q2'', JNum 3)])) =
     example_state\<lparr>game_runs_file := [example_run\<lparr>run_responses := [(''q2'', JNum 3)]\<rparr>]\<rparr>"
proof -
  have nonempty: "[(''q2'', JNum 3)] \<noteq> []" by simp
  have valid: "\<forall>(k, v)\<in>set [(''q2'', JNum 3)].
      k \<in> set (map q_id (questions example_state)) \<and> v \<in> JNum ` of_int ` {0..3}"
    by (simp add: example_defs)
  have "snd (put_game_run_responses example_state (Some (example_token ''Iris'')) ''run-1''
       (JObj [(''q2'', JNum 3)])) =
     example_state\<lparr>game_runs_file := [example_run\<lparr>run_responses := [(''q2'', JNum 3)]\<rparr>]\<rparr>"
    by (simp add: put_game_run_responses_def put_responses_handler_def Let_def schema_defs
        handler_defs example_defs)
  with submission_idempotent [OF nonempty valid, of "Some (example_token ''Iris'')" "''run-1''"]
  show ?thesis by simp
qed

end
